theory Spec2Isabelle
  imports Main "HOL-Library.AList" "HOL-Library.Word"
begin

section \<open>Audio notes application: a shallow embedding of app.py\<close>

text \<open>
  The application is a script that is re-run from top to bottom on every user
  interaction. It talks to three things outside itself: the secret store and the
  process environment (read only), the hosted speech and embedding provider, and
  the vector store. Each function of the script is a HOL function here; what the
  script mutates (the session state, the vector store, the page) is passed in and
  returned, and every exception is a value.
\<close>

subsection \<open>Exceptions and control outcomes\<close>

text \<open>
  An instance of Python's \<open>Exception\<close>, with the text that \<open>str(e)\<close> gives.
  \<open>ProviderError\<close> and \<open>StoreError\<close> stand for whatever the two client libraries
  raise (network, authentication, quota, conflict, not found). Every
  \<open>except Exception\<close> clause of the script catches every value of this type.
\<close>

datatype exn =
    ValueError string
  | KeyError string
  | AttributeError string
  | ProviderError string
  | StoreError string

text \<open>
  How a function of the script ends: it returns, it calls \<open>st.stop()\<close> (which ends the
  current run of the whole script), or an exception leaves it.
\<close>

datatype 'a outcome = Returned 'a | Stopped | Raised exn

subsection \<open>Constants of the script\<close>

definition EMBEDDING_DIM :: nat where
  "EMBEDDING_DIM = 3072"

definition QDRANT_COLLECTION_NAME :: string where
  "QDRANT_COLLECTION_NAME = ''notes''"

subsection \<open>Secrets and environment\<close>

text \<open>
  \<open>st.secrets\<close>, \<open>os.environ\<close> and the \<open>.env\<close> file are dictionaries from names to
  strings.
\<close>

type_synonym env_map = "string \<rightharpoonup> string"

text \<open>
  \<open>load_dotenv()\<close> copies the entries of the \<open>.env\<close> file into \<open>os.environ\<close>; a
  variable the process already has keeps its value.
\<close>

definition load_dotenv :: "env_map \<Rightarrow> env_map \<Rightarrow> env_map" where
  "load_dotenv dotfile environ = dotfile ++ environ"

text \<open>\<open>dotenv_values(".env")\<close>: the entries of the file, as a fresh dictionary.\<close>

definition dotenv_values :: "env_map \<Rightarrow> env_map" where
  "dotenv_values dotfile = dotfile"

text \<open>
  Lines 16 to 20: the dictionary \<open>env\<close> is built from the file and two of its entries
  are overwritten from \<open>st.secrets\<close> when present there.
\<close>

definition env_with_secrets :: "env_map \<Rightarrow> env_map \<Rightarrow> env_map" where
  "env_with_secrets secrets dotfile =
     (let env = dotenv_values dotfile;
          env = (case secrets ''QDRANT_URL'' of
                   Some v \<Rightarrow> env(''QDRANT_URL'' \<mapsto> v) | None \<Rightarrow> env);
          env = (case secrets ''QDRANT_API_KEY'' of
                   Some v \<Rightarrow> env(''QDRANT_API_KEY'' \<mapsto> v) | None \<Rightarrow> env)
      in env)"

text \<open>
  The first access to \<open>st.secrets\<close>, the test of line 17, makes Streamlit read the
  secret store and copy every top-level secret into \<open>os.environ\<close>, replacing a
  variable of the same name. The secret store is taken to be readable.
\<close>

definition read_secrets :: "env_map \<Rightarrow> env_map \<Rightarrow> env_map" where
  "read_secrets secrets environ = environ ++ secrets"

text \<open>
  The state of the module after its first twenty lines: the process environment
  after \<open>load_dotenv()\<close> (line 14) and the first access to \<open>st.secrets\<close> (line 17),
  and the dictionary \<open>env\<close>.
\<close>

definition module_init :: "env_map \<Rightarrow> env_map \<Rightarrow> env_map \<Rightarrow> env_map \<times> env_map" where
  "module_init secrets dotfile environ =
     (read_secrets secrets (load_dotenv dotfile environ), env_with_secrets secrets dotfile)"

text \<open>
  \<open>get_secret\<close>: the secret store first, then the process environment, else a
  \<open>ValueError\<close> whose message names the key.
\<close>

definition get_secret :: "env_map \<Rightarrow> env_map \<Rightarrow> string \<Rightarrow> exn + string" where
  "get_secret secrets environ key =
     (case secrets key of
        Some v \<Rightarrow> Inr v
      | None \<Rightarrow>
          (case environ key of
             Some v \<Rightarrow> Inr v
           | None \<Rightarrow>
               Inl (ValueError (''Secret '' @ [CHR 0x27] @ key @ [CHR 0x27] @
                 '' not found in Streamlit secrets or .env environment variables.''))))"

text \<open>
  The arguments the vector-store client is constructed with. \<open>os.getenv\<close> gives
  \<open>None\<close> for a variable that is not set.
\<close>

record client_config =
  cfg_url :: "string option"
  cfg_api_key :: "string option"

definition get_qdrant_client :: "env_map \<Rightarrow> client_config" where
  "get_qdrant_client environ =
     \<lparr>cfg_url = environ ''QDRANT_URL'', cfg_api_key = environ ''QDRANT_API_KEY''\<rparr>"

text \<open>
  The client as the script constructs it: \<open>get_qdrant_client\<close> runs after the module's
  first lines and reads the process environment they leave.
\<close>

definition client_at_startup :: "env_map \<Rightarrow> env_map \<Rightarrow> env_map \<Rightarrow> client_config" where
  "client_at_startup secrets dotfile environ =
     get_qdrant_client (fst (module_init secrets dotfile environ))"

subsection \<open>Session state\<close>

type_synonym bytes = "8 word list"

text \<open>
  The keys of \<open>st.session_state\<close> the script uses. \<open>None\<close> in \<open>openai_api_key\<close> is a
  key that is not set; in the two audio fields it is Python's \<open>None\<close>, the value the
  script initialises them with.
\<close>

record session =
  openai_api_key :: "string option"
  note_audio_bytes_md5 :: "string option"
  note_audio_bytes :: "bytes option"
  note_text :: string
  note_audio_text :: string

subsection \<open>The vector store\<close>

text \<open>
  The store is outside the repository; this is the part of its contract the script
  relies on. A collection keeps one point per identifier, as an association list;
  a point is a vector and the payload field \<open>text\<close>. Identifiers are unsigned
  integers. \<open>api_ok\<close> says whether the store answers collection and point
  requests.
\<close>

datatype distance = Cosine | Euclid | Dot

record 'v point =
  pt_vector :: 'v
  pt_text :: string

record 'v collection =
  vec_size :: nat
  vec_distance :: distance
  points :: "(nat \<times> 'v point) list"

record 'v store =
  api_ok :: bool
  collections :: "(string \<times> 'v collection) list"

text \<open>
  The client of the store has no method \<open>get_health\<close>: the call of line 69 raises
  \<open>AttributeError\<close> when the attribute is looked up, for every store and before any
  request is sent.
\<close>

definition get_health :: "'v store \<Rightarrow> exn + unit" where
  "get_health st =
     Inl (AttributeError (CHR 0x27 # ''QdrantClient'' @ [CHR 0x27] @
       '' object has no attribute '' @ [CHR 0x27] @ ''get_health'' @ [CHR 0x27]))"

definition collection_exists :: "'v store \<Rightarrow> string \<Rightarrow> exn + bool" where
  "collection_exists st name =
     (if api_ok st then Inr (name \<in> set (map fst (collections st)))
      else Inl (StoreError ''unavailable''))"

text \<open>Creating a collection under a name that is taken is refused by the store.\<close>

definition create_collection :: "'v store \<Rightarrow> string \<Rightarrow> nat \<Rightarrow> distance \<Rightarrow> exn + 'v store" where
  "create_collection st name n d =
     (if \<not> api_ok st then Inl (StoreError ''unavailable'')
      else if name \<in> set (map fst (collections st)) then Inl (StoreError ''conflict'')
      else Inr (st\<lparr>collections := collections st @
                 [(name, \<lparr>vec_size = n, vec_distance = d, points = []\<rparr>)]\<rparr>))"

text \<open>\<open>count(exact=True)\<close>: the number of points of the collection.\<close>

definition count_points :: "'v store \<Rightarrow> string \<Rightarrow> exn + nat" where
  "count_points st name =
     (if \<not> api_ok st then Inl (StoreError ''unavailable'')
      else (case map_of (collections st) name of
              None \<Rightarrow> Inl (StoreError ''collection not found'')
            | Some c \<Rightarrow> Inr (length (points c))))"

text \<open>\<open>upsert\<close>: insert the point, or replace the point that has its identifier.\<close>

definition upsert :: "'v store \<Rightarrow> string \<Rightarrow> nat \<Rightarrow> 'v point \<Rightarrow> exn + 'v store" where
  "upsert st name i p =
     (if \<not> api_ok st then Inl (StoreError ''unavailable'')
      else (case map_of (collections st) name of
              None \<Rightarrow> Inl (StoreError ''collection not found'')
            | Some c \<Rightarrow>
                Inr (st\<lparr>collections :=
                  AList.update name (c\<lparr>points := AList.update i p (points c)\<rparr>) (collections st)\<rparr>)))"

text \<open>
  What the client library hands back for a stored point. \<open>scroll\<close> gives \<open>Record\<close>
  objects: identifier and payload. \<open>search\<close> gives \<open>ScoredPoint\<close> objects, which
  have the attribute \<open>score\<close> as well. Reading an attribute an object does not have
  raises \<open>AttributeError\<close>.
\<close>

datatype 's hit = Record nat string | ScoredPoint nat string 's

fun payload_text :: "'s hit \<Rightarrow> string" where
  "payload_text (Record i t) = t"
| "payload_text (ScoredPoint i t sc) = t"

fun score_attr :: "'s hit \<Rightarrow> exn + 's option" where
  "score_attr (Record i t) =
     Inl (AttributeError (CHR 0x27 # ''Record'' @ [CHR 0x27] @
       '' object has no attribute '' @ [CHR 0x27] @ ''score'' @ [CHR 0x27]))"
| "score_attr (ScoredPoint i t sc) = Inr (Some sc)"

text \<open>
  \<open>scroll(limit, offset)[0]\<close>: the points in the order of their identifiers, from the
  identifier \<open>offset\<close> on, at most \<open>limit\<close> of them.
\<close>

definition scroll :: "'v store \<Rightarrow> string \<Rightarrow> nat \<Rightarrow> nat \<Rightarrow> exn + 's hit list" where
  "scroll st name limit offset =
     (if \<not> api_ok st then Inl (StoreError ''unavailable'')
      else (case map_of (collections st) name of
              None \<Rightarrow> Inl (StoreError ''collection not found'')
            | Some c \<Rightarrow>
                Inr (map (\<lambda>(i, p). Record i (pt_text p))
                  (take limit (filter (\<lambda>(i, p). offset \<le> i) (sort_key fst (points c)))))))"

text \<open>
  \<open>search(query_vector, limit, offset)\<close>: the store ranks the points by similarity
  to the query vector (\<open>rank\<close>, the store's own nearest-neighbour search) and returns
  \<open>limit\<close> of them after skipping \<open>offset\<close>.
\<close>

definition search ::
  "('v \<Rightarrow> (nat \<times> 'v point) list \<Rightarrow> (nat \<times> 'v point \<times> 's) list) \<Rightarrow>
   'v store \<Rightarrow> string \<Rightarrow> 'v \<Rightarrow> nat \<Rightarrow> nat \<Rightarrow> exn + 's hit list" where
  "search rank st name qv limit offset =
     (if \<not> api_ok st then Inl (StoreError ''unavailable'')
      else (case map_of (collections st) name of
              None \<Rightarrow> Inl (StoreError ''collection not found'')
            | Some c \<Rightarrow>
                Inr (map (\<lambda>(i, p, sc). ScoredPoint i (pt_text p) sc)
                  (take limit (drop offset (rank qv (points c)))))))"

subsection \<open>The world a run of the script acts on\<close>

text \<open>
  The requests the script sends, in order, and what it puts on the page.
\<close>

datatype 'v request =
    CollectionExists string
  | CreateCollection string nat distance
  | Count string
  | Upsert string nat 'v string
  | Scroll string nat nat
  | Search string 'v nat nat
  | Embed string
  | Transcribe bytes

datatype ui_event =
    Title
  | Err_connect exn
  | Info_creating
  | Info_exists
  | Err_collection exn
  | Err_transcribe exn
  | Tabs
  | Audio_player bytes

record 'v world =
  store :: "'v store"
  page :: "ui_event list"
  requests :: "'v request list"

definition send :: "'v request \<Rightarrow> 'v world \<Rightarrow> 'v world" where
  "send r w = w\<lparr>requests := requests w @ [r]\<rparr>"

definition show_ui :: "ui_event \<Rightarrow> 'v world \<Rightarrow> 'v world" where
  "show_ui e w = w\<lparr>page := page w @ [e]\<rparr>"

subsection \<open>The speech and embedding provider\<close>

text \<open>
  \<open>get_openai_client\<close> reads the key \<open>openai_api_key\<close> of the session state; a
  subscript on a key that is not set raises \<open>KeyError\<close>. The client is its key.
\<close>

definition get_openai_client :: "session \<Rightarrow> exn + string" where
  "get_openai_client sess =
     (case openai_api_key sess of
        None \<Rightarrow> Inl (KeyError ''openai_api_key'')
      | Some k \<Rightarrow> Inr k)"

text \<open>
  \<open>transcribe_audio\<close>. The provider's transcription call is the parameter
  \<open>transcribe\<close>: for a client and the audio bytes it gives the text of the transcript
  or raises. The whole body stands in a \<open>try\<close>; the handler shows the error on the
  page and returns the empty string.
\<close>

definition transcribe_audio ::
  "(string \<Rightarrow> bytes \<Rightarrow> exn + string) \<Rightarrow> session \<Rightarrow> bytes \<Rightarrow> 'v world \<Rightarrow>
   string outcome \<times> 'v world" where
  "transcribe_audio transcribe sess audio_bytes w =
     (case (case get_openai_client sess of
              Inl e \<Rightarrow> (Inl e, w)
            | Inr openai_client \<Rightarrow>
                (transcribe openai_client audio_bytes, send (Transcribe audio_bytes) w)) of
        (Inr transcript_text, w1) \<Rightarrow> (Returned transcript_text, w1)
      | (Inl e, w1) \<Rightarrow> (Returned [], show_ui (Err_transcribe e) w1))"

text \<open>
  \<open>get_embeddings\<close>. The provider's embedding call is the parameter \<open>embedding\<close>. Nothing
  is caught here.
\<close>

definition get_embeddings ::
  "(string \<Rightarrow> string \<Rightarrow> exn + 'v) \<Rightarrow> session \<Rightarrow> string \<Rightarrow> 'v world \<Rightarrow>
   (exn + 'v) \<times> 'v world" where
  "get_embeddings embedding sess ntext w =
     (case get_openai_client sess of
        Inl e \<Rightarrow> (Inl e, w)
      | Inr openai_client \<Rightarrow> (embedding openai_client ntext, send (Embed ntext) w))"

subsection \<open>Collection assurance\<close>

definition test_qdrant_connection :: "'v world \<Rightarrow> bool \<times> 'v world" where
  "test_qdrant_connection w =
     (case get_health (store w) of
        Inr u \<Rightarrow> (True, w)
      | Inl e \<Rightarrow> (False, show_ui (Err_connect e) w))"

text \<open>
  \<open>assure_db_collection_exists\<close>. When the connection test fails the function
  returns. Otherwise it asks whether the collection exists (the two-second sleep
  before that has no effect on the state and is left out) and creates it when it
  does not; an exception of either request is shown and followed by \<open>st.stop()\<close>.
\<close>

definition assure_db_collection_exists :: "'v world \<Rightarrow> unit outcome \<times> 'v world" where
  "assure_db_collection_exists w =
     (case test_qdrant_connection w of
        (False, w1) \<Rightarrow> (Returned (), w1)
      | (True, w1) \<Rightarrow>
          (let w2 = send (CollectionExists QDRANT_COLLECTION_NAME) w1
           in case collection_exists (store w2) QDRANT_COLLECTION_NAME of
                Inl e \<Rightarrow> (Stopped, show_ui (Err_collection e) w2)
              | Inr True \<Rightarrow> (Returned (), show_ui Info_exists w2)
              | Inr False \<Rightarrow>
                  (let w3 = show_ui Info_creating w2;
                       w4 = send (CreateCollection QDRANT_COLLECTION_NAME EMBEDDING_DIM Cosine) w3
                   in case create_collection (store w4) QDRANT_COLLECTION_NAME
                             EMBEDDING_DIM Cosine of
                        Inl e \<Rightarrow> (Stopped, show_ui (Err_collection e) w4)
                      | Inr st' \<Rightarrow> (Returned (), w4\<lparr>store := st'\<rparr>))))"

subsection \<open>Adding and listing notes\<close>

text \<open>
  \<open>add_note_to_db\<close> is two requests to the store with the embedding call between
  them: the count (lines 114 to 117), then the upsert of the new point under the
  identifier count plus one (lines 118 to 125). Each half is a function, so that
  a run in which another session writes between the two can be written down.
\<close>

definition read_points_count :: "'v world \<Rightarrow> (exn + nat) \<times> 'v world" where
  "read_points_count w =
     (let w1 = send (Count QDRANT_COLLECTION_NAME) w
      in (count_points (store w1) QDRANT_COLLECTION_NAME, w1))"

definition upsert_note_point ::
  "(string \<Rightarrow> string \<Rightarrow> exn + 'v) \<Rightarrow> session \<Rightarrow> string \<Rightarrow> nat \<Rightarrow> 'v world \<Rightarrow>
   unit outcome \<times> 'v world" where
  "upsert_note_point embedding sess ntext points_count w =
     (case get_embeddings embedding sess ntext w of
        (Inl e, w1) \<Rightarrow> (Raised e, w1)
      | (Inr v, w1) \<Rightarrow>
          (let w2 = send (Upsert QDRANT_COLLECTION_NAME (points_count + 1) v ntext) w1
           in case upsert (store w2) QDRANT_COLLECTION_NAME (points_count + 1)
                     \<lparr>pt_vector = v, pt_text = ntext\<rparr> of
                Inl e \<Rightarrow> (Raised e, w2)
              | Inr st' \<Rightarrow> (Returned (), w2\<lparr>store := st'\<rparr>)))"

definition add_note_to_db ::
  "(string \<Rightarrow> string \<Rightarrow> exn + 'v) \<Rightarrow> session \<Rightarrow> string \<Rightarrow> 'v world \<Rightarrow>
   unit outcome \<times> 'v world" where
  "add_note_to_db embedding sess ntext w =
     (case read_points_count w of
        (Inl e, w1) \<Rightarrow> (Raised e, w1)
      | (Inr points_count, w1) \<Rightarrow> upsert_note_point embedding sess ntext points_count w1)"

text \<open>
  An entry of the list \<open>list_notes_from_db\<close> returns: the dictionary with the keys
  \<open>text\<close> and \<open>score\<close>; \<open>None\<close> in \<open>entry_score\<close> is Python's \<open>None\<close>.
\<close>

record 's entry =
  entry_text :: string
  entry_score :: "'s option"

text \<open>
  The list comprehension of line 139: for each note in order, its payload text and
  its attribute \<open>score\<close>; the first exception ends it.
\<close>

fun build_result :: "'s hit list \<Rightarrow> exn + 's entry list" where
  "build_result [] = Inr []"
| "build_result (note # notes) =
     (case score_attr note of
        Inl e \<Rightarrow> Inl e
      | Inr sc \<Rightarrow>
          (case build_result notes of
             Inl e \<Rightarrow> Inl e
           | Inr r \<Rightarrow> Inr (\<lparr>entry_text = payload_text note, entry_score = sc\<rparr> # r)))"

text \<open>
  \<open>list_notes_from_db\<close>. \<open>not query\<close> holds for \<open>None\<close> and for the empty string.
\<close>

definition fetch_notes ::
  "(string \<Rightarrow> string \<Rightarrow> exn + 'v) \<Rightarrow>
   ('v \<Rightarrow> (nat \<times> 'v point) list \<Rightarrow> (nat \<times> 'v point \<times> 's) list) \<Rightarrow>
   session \<Rightarrow> string option \<Rightarrow> nat \<Rightarrow> nat \<Rightarrow> 'v world \<Rightarrow> (exn + 's hit list) \<times> 'v world" where
  "fetch_notes embedding rank sess query offset limit w =
     (case (case query of None \<Rightarrow> None | Some q \<Rightarrow> if q = [] then None else Some q) of
        None \<Rightarrow>
          (let w1 = send (Scroll QDRANT_COLLECTION_NAME limit offset) w
           in (scroll (store w1) QDRANT_COLLECTION_NAME limit offset, w1))
      | Some q \<Rightarrow>
          (case get_embeddings embedding sess q w of
             (Inl e, w1) \<Rightarrow> (Inl e, w1)
           | (Inr qv, w1) \<Rightarrow>
               (let w2 = send (Search QDRANT_COLLECTION_NAME qv limit offset) w1
                in (search rank (store w2) QDRANT_COLLECTION_NAME qv limit offset, w2))))"

definition list_notes_from_db ::
  "(string \<Rightarrow> string \<Rightarrow> exn + 'v) \<Rightarrow>
   ('v \<Rightarrow> (nat \<times> 'v point) list \<Rightarrow> (nat \<times> 'v point \<times> 's) list) \<Rightarrow>
   session \<Rightarrow> string option \<Rightarrow> nat \<Rightarrow> nat \<Rightarrow> 'v world \<Rightarrow>
   's entry list outcome \<times> 'v world" where
  "list_notes_from_db embedding rank sess query offset limit w =
     (case fetch_notes embedding rank sess query offset limit w of
        (Inl e, w1) \<Rightarrow> (Raised e, w1)
      | (Inr notes, w1) \<Rightarrow>
          (case build_result notes of
             Inl e \<Rightarrow> (Raised e, w1)
           | Inr result \<Rightarrow> (Returned result, w1)))"

subsection \<open>The add-note tab\<close>

text \<open>
  Lines 184 to 189, one state per assignment: the bytes of the new recording are
  stored; their hash (the parameter \<open>md5_hex\<close>, the hexadecimal MD5 digest) is
  compared with the stored one; when it differs the transcript, the note text and
  then the hash are assigned, in this order. The list holds the session state after
  each assignment.
\<close>

definition audio_handler_steps :: "(bytes \<Rightarrow> string) \<Rightarrow> session \<Rightarrow> bytes \<Rightarrow> session list" where
  "audio_handler_steps md5_hex sess audio =
     (let s1 = sess\<lparr>note_audio_bytes := Some audio\<rparr>;
          current_md5 = md5_hex audio
      in if note_audio_bytes_md5 s1 \<noteq> Some current_md5 then
           (let s2 = s1\<lparr>note_audio_text := []\<rparr>;
                s3 = s2\<lparr>note_text := []\<rparr>;
                s4 = s3\<lparr>note_audio_bytes_md5 := Some current_md5\<rparr>
            in [s1, s2, s3, s4])
         else [s1])"

definition audio_handler :: "(bytes \<Rightarrow> string) \<Rightarrow> session \<Rightarrow> bytes \<Rightarrow> session" where
  "audio_handler md5_hex sess audio = last (audio_handler_steps md5_hex sess audio)"

text \<open>
  What the user did before this run of the script. The recorder widget gives an
  audio segment: \<open>seg_len\<close> is its length, which decides \<open>if note_audio\<close>, and
  \<open>seg_mp3\<close> the bytes its export writes. \<open>text_area_value\<close> is what the text area
  returns for the default value it is given (the default itself, or the user's edit).
\<close>

record audio_segment =
  seg_len :: nat
  seg_mp3 :: bytes

record user_input =
  recorded :: audio_segment
  click_transcribe :: bool
  text_area_value :: "string \<Rightarrow> string"
  click_save :: bool

text \<open>\<open>st.button\<close>: true in the run that follows a click; a disabled button cannot be
  clicked.\<close>

definition button :: "bool \<Rightarrow> bool \<Rightarrow> bool" where
  "button clicked disabled = (clicked \<and> \<not> disabled)"

definition session_audio :: "session \<Rightarrow> bytes" where
  "session_audio sess = (case note_audio_bytes sess of Some b \<Rightarrow> b | None \<Rightarrow> [])"

text \<open>Lines 193 and 194.\<close>

definition transcribe_step ::
  "(string \<Rightarrow> bytes \<Rightarrow> exn + string) \<Rightarrow> bool \<Rightarrow> session \<Rightarrow> 'v world \<Rightarrow>
   unit outcome \<times> session \<times> 'v world" where
  "transcribe_step transcribe clicked sess w =
     (if button clicked False then
        (case transcribe_audio transcribe sess (session_audio sess) w of
           (Returned t, w1) \<Rightarrow> (Returned (), sess\<lparr>note_audio_text := t\<rparr>, w1)
         | (Stopped, w1) \<Rightarrow> (Stopped, sess, w1)
         | (Raised e, w1) \<Rightarrow> (Raised e, sess, w1))
      else (Returned (), sess, w))"

text \<open>Lines 196 and 197.\<close>

definition edit_step :: "user_input \<Rightarrow> session \<Rightarrow> session" where
  "edit_step inp sess =
     (if note_audio_text sess \<noteq> [] then
        sess\<lparr>note_text := text_area_value inp (note_audio_text sess)\<rparr>
      else sess)"

text \<open>
  Modelled from the spec: the body of the save branch, which the source as given
  does not contain (it ends inside the condition of line 199). The spec's
  transition from EditedReadyToSave to Saved: the user triggers save, the note is
  upserted with the edited text, and the note text field is not cleared afterward.
\<close>

definition save_note ::
  "(string \<Rightarrow> string \<Rightarrow> exn + 'v) \<Rightarrow> session \<Rightarrow> 'v world \<Rightarrow> unit outcome \<times> 'v world" where
  "save_note embedding sess w = add_note_to_db embedding sess (note_text sess) w"

text \<open>
  Line 199: the save branch runs when the note text is non-empty and the button,
  which is disabled for an empty note text, was clicked. Python's \<open>and\<close> does not
  evaluate the button for an empty note text. The line breaks off inside the
  \<open>disabled\<close> argument, after \<open>not st.session_state["note_text\<close>; the argument is
  read as the negation of the note text.
\<close>

definition save_step ::
  "(string \<Rightarrow> string \<Rightarrow> exn + 'v) \<Rightarrow> user_input \<Rightarrow> session \<Rightarrow> 'v world \<Rightarrow>
   unit outcome \<times> 'v world" where
  "save_step embedding inp sess w =
     (if note_text sess \<noteq> [] \<and> button (click_save inp) (note_text sess = []) then
        save_note embedding sess w
      else (Returned (), w))"

text \<open>Lines 176 to 199.\<close>

definition add_tab ::
  "(bytes \<Rightarrow> string) \<Rightarrow> (string \<Rightarrow> bytes \<Rightarrow> exn + string) \<Rightarrow>
   (string \<Rightarrow> string \<Rightarrow> exn + 'v) \<Rightarrow> user_input \<Rightarrow> session \<Rightarrow> 'v world \<Rightarrow>
   unit outcome \<times> session \<times> 'v world" where
  "add_tab md5_hex transcribe embedding inp sess w =
     (if seg_len (recorded inp) = 0 then (Returned (), sess, w)
      else
        (let sess1 = audio_handler md5_hex sess (seg_mp3 (recorded inp));
             w1 = show_ui (Audio_player (session_audio sess1)) w
         in case transcribe_step transcribe (click_transcribe inp) sess1 w1 of
              (Returned u, sess2, w2) \<Rightarrow>
                (let sess3 = edit_step inp sess2
                 in case save_step embedding inp sess3 w2 of
                      (out, w3) \<Rightarrow> (out, sess3, w3))
            | (Stopped, sess2, w2) \<Rightarrow> (Stopped, sess2, w2)
            | (Raised e, sess2, w2) \<Rightarrow> (Raised e, sess2, w2)))"

text \<open>
  Lines 171 to 174 and the tab that follows: the title, the collection assurance,
  the tabs. \<open>st.stop()\<close> inside the assurance ends the run; a return from it does not.
  The search tab is not part of the source as given.
\<close>

definition app_shell ::
  "(bytes \<Rightarrow> string) \<Rightarrow> (string \<Rightarrow> bytes \<Rightarrow> exn + string) \<Rightarrow>
   (string \<Rightarrow> string \<Rightarrow> exn + 'v) \<Rightarrow> user_input \<Rightarrow> session \<Rightarrow> 'v world \<Rightarrow>
   unit outcome \<times> session \<times> 'v world" where
  "app_shell md5_hex transcribe embedding inp sess w =
     (case assure_db_collection_exists (show_ui Title w) of
        (Returned u, w1) \<Rightarrow> add_tab md5_hex transcribe embedding inp sess (show_ui Tabs w1)
      | (Stopped, w1) \<Rightarrow> (Stopped, sess, w1)
      | (Raised e, w1) \<Rightarrow> (Raised e, sess, w1))"

subsection \<open>Notions used in the statements\<close>

text \<open>
  The identifiers of a collection are distinct numbers from 1 up to the number of
  its points, that is, all of them. Every collection that is filled from empty by
  calls of \<open>add_note_to_db\<close>, one after the other, is of this kind.
\<close>

definition ids_contiguous :: "(nat \<times> 'a) list \<Rightarrow> bool" where
  "ids_contiguous ps =
     (distinct (map fst ps) \<and> list_all (\<lambda>i. 1 \<le> i \<and> i \<le> length ps) (map fst ps))"

text \<open>The texts of the upsert requests in a list of requests.\<close>

fun upsert_texts :: "'v request list \<Rightarrow> string list" where
  "upsert_texts [] = []"
| "upsert_texts (Upsert c i v t # rs) = t # upsert_texts rs"
| "upsert_texts (r # rs) = upsert_texts rs"

subsection \<open>Concrete inputs\<close>

text \<open>
  Inputs on which the functions are evaluated below. The embedding provider is
  replaced by a function that always answers, with a vector that holds the length
  of the text; the hash by one that tells the empty recording from the others
  by length; the ranking by one that keeps the stored order.
\<close>

definition demo_session :: session where
  "demo_session =
     \<lparr>openai_api_key = Some ''sk-demo'', note_audio_bytes_md5 = None,
      note_audio_bytes = None, note_text = [], note_audio_text = []\<rparr>"

definition demo_embedding :: "string \<Rightarrow> string \<Rightarrow> exn + nat list" where
  "demo_embedding k t = Inr [length t]"

definition demo_rank ::
  "nat list \<Rightarrow> (nat \<times> nat list point) list \<Rightarrow> (nat \<times> nat list point \<times> int) list" where
  "demo_rank qv ps = map (\<lambda>(i, p). (i, p, 0)) ps"

definition demo_md5 :: "bytes \<Rightarrow> string" where
  "demo_md5 bs = replicate (length bs) (CHR ''a'')"

definition failing_transcribe :: "string \<Rightarrow> bytes \<Rightarrow> exn + string" where
  "failing_transcribe k bs = Inl (ProviderError ''quota'')"

definition demo_transcribe :: "string \<Rightarrow> bytes \<Rightarrow> exn + string" where
  "demo_transcribe k bs = Inr ''buy milk''"

definition world_of :: "'v store \<Rightarrow> 'v world" where
  "world_of st = \<lparr>store = st, page = [], requests = []\<rparr>"

definition notes_collection :: "(nat \<times> nat list point) list \<Rightarrow> nat list collection" where
  "notes_collection ps = \<lparr>vec_size = 3072, vec_distance = Cosine, points = ps\<rparr>"

definition store_with :: "(nat \<times> nat list point) list \<Rightarrow> nat list store" where
  "store_with ps =
     \<lparr>api_ok = True, collections = [(''notes'', notes_collection ps)]\<rparr>"

definition fresh_store :: "nat list store" where
  "fresh_store = \<lparr>api_ok = True, collections = []\<rparr>"

definition down_store :: "nat list store" where
  "down_store = \<lparr>api_ok = False, collections = []\<rparr>"

definition three_notes :: "(nat \<times> nat list point) list" where
  "three_notes =
     [(1, \<lparr>pt_vector = [8], pt_text = ''buy milk''\<rparr>),
      (2, \<lparr>pt_vector = [8], pt_text = ''call mom''\<rparr>),
      (3, \<lparr>pt_vector = [8], pt_text = ''pay rent''\<rparr>)]"

section \<open>Properties\<close>

subsection \<open>Bookkeeping of the world\<close>

lemma store_send [simp]: "store (send r w) = store w"
  by (simp add: send_def)

lemma store_show_ui [simp]: "store (show_ui e w) = store w"
  by (simp add: show_ui_def)

lemma requests_send [simp]: "requests (send r w) = requests w @ [r]"
  by (simp add: send_def)

lemma requests_show_ui [simp]: "requests (show_ui e w) = requests w"
  by (simp add: show_ui_def)

lemma page_send [simp]: "page (send r w) = page w"
  by (simp add: send_def)

lemma page_show_ui [simp]: "page (show_ui e w) = page w @ [e]"
  by (simp add: show_ui_def)

lemma get_embeddings_ok:
  "openai_api_key sess = Some k \<Longrightarrow>
   get_embeddings embedding sess ntext w = (embedding k ntext, send (Embed ntext) w)"
  by (simp add: get_embeddings_def get_openai_client_def)

subsection \<open>Secret resolution\<close>

text \<open>
  C6. For every key, \<open>get_secret\<close> returns the value of the secret store when the key
  is present there; otherwise the value of the process environment when the key is
  present there; and fails with a typed error, the script's \<open>ValueError\<close> naming the
  key, when the key is absent from both.
\<close>

theorem get_secret_precedence:
  "(case secrets key of
      Some v \<Rightarrow> get_secret secrets environ key = Inr v
    | None \<Rightarrow>
        (case environ key of
           Some v \<Rightarrow> get_secret secrets environ key = Inr v
         | None \<Rightarrow>
             get_secret secrets environ key =
               Inl (ValueError (''Secret '' @ [CHR 0x27] @ key @ [CHR 0x27] @
                 '' not found in Streamlit secrets or .env environment variables.''))))"
  by (simp add: get_secret_def split: option.splits)

text \<open>
  C5. The URL and the API key of the vector store are each resolved as the Secret
  Resolver resolves them: the client is constructed with the value of the secret
  store when the key is present there, which takes precedence over the local
  environment (the process environment, then the \<open>.env\<close> file), and with the local
  value otherwise. The client reads \<open>os.getenv\<close>; the values of the secret store
  are there because the access of line 17 puts them there.
\<close>

theorem client_secret_precedence:
  "cfg_url (client_at_startup secrets dotfile environ) =
     (case secrets ''QDRANT_URL'' of
        Some v \<Rightarrow> Some v
      | None \<Rightarrow>
          (case environ ''QDRANT_URL'' of
             Some v \<Rightarrow> Some v
           | None \<Rightarrow> dotfile ''QDRANT_URL'')) \<and>
   cfg_api_key (client_at_startup secrets dotfile environ) =
     (case secrets ''QDRANT_API_KEY'' of
        Some v \<Rightarrow> Some v
      | None \<Rightarrow>
          (case environ ''QDRANT_API_KEY'' of
             Some v \<Rightarrow> Some v
           | None \<Rightarrow> dotfile ''QDRANT_API_KEY'')) \<and>
   cfg_url (client_at_startup secrets dotfile environ) =
     (case get_secret secrets (load_dotenv dotfile environ) ''QDRANT_URL'' of
        Inr v \<Rightarrow> Some v
      | Inl e \<Rightarrow> None) \<and>
   cfg_api_key (client_at_startup secrets dotfile environ) =
     (case get_secret secrets (load_dotenv dotfile environ) ''QDRANT_API_KEY'' of
        Inr v \<Rightarrow> Some v
      | Inl e \<Rightarrow> None)"
  by (simp add: client_at_startup_def module_init_def read_secrets_def load_dotenv_def
      get_qdrant_client_def get_secret_def map_add_def split: option.splits)

theorem client_secret_precedence_witness:
  "client_at_startup
     [''QDRANT_URL'' \<mapsto> ''https://cloud.example'', ''QDRANT_API_KEY'' \<mapsto> ''cloud-key'']
     [''QDRANT_API_KEY'' \<mapsto> ''file-key'']
     [''QDRANT_URL'' \<mapsto> ''http://localhost:6333'']
   = \<lparr>cfg_url = Some ''https://cloud.example'', cfg_api_key = Some ''cloud-key''\<rparr> \<and>
   client_at_startup
     Map.empty
     [''QDRANT_API_KEY'' \<mapsto> ''file-key'']
     [''QDRANT_URL'' \<mapsto> ''http://localhost:6333'']
   = \<lparr>cfg_url = Some ''http://localhost:6333'', cfg_api_key = Some ''file-key''\<rparr>"
proof -
  have "\<And>c. c = \<lparr>cfg_url = cfg_url c, cfg_api_key = cfg_api_key c\<rparr>"
    by simp
  from this [of "client_at_startup
     [''QDRANT_URL'' \<mapsto> ''https://cloud.example'', ''QDRANT_API_KEY'' \<mapsto> ''cloud-key'']
     [''QDRANT_API_KEY'' \<mapsto> ''file-key'']
     [''QDRANT_URL'' \<mapsto> ''http://localhost:6333'']"]
    this [of "client_at_startup Map.empty
     [''QDRANT_API_KEY'' \<mapsto> ''file-key'']
     [''QDRANT_URL'' \<mapsto> ''http://localhost:6333'']"]
    client_secret_precedence
      [of "[''QDRANT_URL'' \<mapsto> ''https://cloud.example'', ''QDRANT_API_KEY'' \<mapsto> ''cloud-key'']"
          "[''QDRANT_API_KEY'' \<mapsto> ''file-key'']"
          "[''QDRANT_URL'' \<mapsto> ''http://localhost:6333'']"]
    client_secret_precedence
      [of Map.empty "[''QDRANT_API_KEY'' \<mapsto> ''file-key'']"
          "[''QDRANT_URL'' \<mapsto> ''http://localhost:6333'']"]
  show ?thesis by simp
qed

subsection \<open>Transcription\<close>

text \<open>
  C7. For every audio byte input, if the transcription provider call raises an
  error, \<open>transcribe_audio\<close> catches it, shows a message on the page and returns the
  empty string; the exception does not leave the function.
\<close>

theorem transcribe_audio_swallows_provider_error:
  assumes "openai_api_key sess = Some k"
    and "transcribe k audio_bytes = Inl e"
  shows "transcribe_audio transcribe sess audio_bytes w =
           (Returned [], show_ui (Err_transcribe e) (send (Transcribe audio_bytes) w))"
  using assms by (simp add: transcribe_audio_def get_openai_client_def)

theorem transcribe_audio_swallows_witness:
  "transcribe_audio failing_transcribe demo_session [1, 2, 3] (world_of fresh_store) =
     (Returned [],
      \<lparr>store = fresh_store, page = [Err_transcribe (ProviderError ''quota'')],
       requests = [Transcribe [1, 2, 3]]\<rparr>)"
  using transcribe_audio_swallows_provider_error
          [of demo_session "''sk-demo''" failing_transcribe "[1, 2, 3]" "ProviderError ''quota''"
              "world_of fresh_store"]
  by (simp add: demo_session_def failing_transcribe_def world_of_def send_def show_ui_def)

text \<open>Whatever the provider does, \<open>transcribe_audio\<close> returns.\<close>

lemma transcribe_audio_returns:
  "\<exists>t w'. transcribe_audio transcribe sess audio_bytes w = (Returned t, w')"
  by (auto simp: transcribe_audio_def split: sum.splits option.splits prod.splits)

subsection \<open>Session state and new audio\<close>

text \<open>
  C3. For every session state and every newly captured audio byte sequence: when
  the hash of the audio differs from the stored hash, the transcript field and the
  edited note text are both cleared before the new hash is stored (the state before
  the last assignment has both fields empty and still the old hash, and the last
  assignment stores the new hash); when the hash is equal, neither field is
  cleared and only the audio bytes are assigned.
\<close>

theorem audio_hash_change_clears_transcript_and_text:
  "(note_audio_bytes_md5 sess \<noteq> Some (md5_hex audio) \<longrightarrow>
      (\<exists>s1 cleared.
         audio_handler_steps md5_hex sess audio =
           [s1, s1\<lparr>note_audio_text := []\<rparr>, cleared,
            cleared\<lparr>note_audio_bytes_md5 := Some (md5_hex audio)\<rparr>] \<and>
         note_audio_bytes_md5 s1 = note_audio_bytes_md5 sess \<and>
         note_audio_bytes_md5 cleared = note_audio_bytes_md5 sess \<and>
         note_audio_text cleared = [] \<and> note_text cleared = []) \<and>
      note_audio_text (audio_handler md5_hex sess audio) = [] \<and>
      note_text (audio_handler md5_hex sess audio) = [] \<and>
      note_audio_bytes_md5 (audio_handler md5_hex sess audio) = Some (md5_hex audio)) \<and>
   (note_audio_bytes_md5 sess = Some (md5_hex audio) \<longrightarrow>
      audio_handler_steps md5_hex sess audio = [sess\<lparr>note_audio_bytes := Some audio\<rparr>] \<and>
      note_audio_text (audio_handler md5_hex sess audio) = note_audio_text sess \<and>
      note_text (audio_handler md5_hex sess audio) = note_text sess \<and>
      note_audio_bytes_md5 (audio_handler md5_hex sess audio) = note_audio_bytes_md5 sess)"
  by (simp add: audio_handler_def audio_handler_steps_def Let_def)

theorem audio_hash_change_witness:
  "note_audio_bytes_md5 (demo_session\<lparr>note_audio_bytes_md5 := Some ''aa'', note_text := ''old'',
       note_audio_text := ''old''\<rparr>) \<noteq> Some (demo_md5 [1, 2, 3]) \<and>
   note_text (audio_handler demo_md5
     (demo_session\<lparr>note_audio_bytes_md5 := Some ''aa'', note_text := ''old'',
       note_audio_text := ''old''\<rparr>) [1, 2, 3]) = [] \<and>
   note_audio_text (audio_handler demo_md5
     (demo_session\<lparr>note_audio_bytes_md5 := Some ''aa'', note_text := ''old'',
       note_audio_text := ''old''\<rparr>) [1, 2, 3]) = [] \<and>
   note_audio_bytes_md5 (demo_session\<lparr>note_audio_bytes_md5 := Some ''aa'', note_text := ''old'',
       note_audio_text := ''old''\<rparr>) = Some (demo_md5 [1, 2]) \<and>
   note_text (audio_handler demo_md5
     (demo_session\<lparr>note_audio_bytes_md5 := Some ''aa'', note_text := ''old'',
       note_audio_text := ''old''\<rparr>) [1, 2]) = ''old'' \<and>
   note_audio_text (audio_handler demo_md5
     (demo_session\<lparr>note_audio_bytes_md5 := Some ''aa'', note_text := ''old'',
       note_audio_text := ''old''\<rparr>) [1, 2]) = ''old''"
  using audio_hash_change_clears_transcript_and_text
          [of "demo_session\<lparr>note_audio_bytes_md5 := Some ''aa'', note_text := ''old'',
                 note_audio_text := ''old''\<rparr>" demo_md5 "[1, 2, 3]"]
        audio_hash_change_clears_transcript_and_text
          [of "demo_session\<lparr>note_audio_bytes_md5 := Some ''aa'', note_text := ''old'',
                 note_audio_text := ''old''\<rparr>" demo_md5 "[1, 2]"]
  by (simp add: demo_session_def demo_md5_def)

subsection \<open>Collection assurance\<close>

text \<open>
  C4 as stated fails: when the health check fails, \<open>assure_db_collection_exists\<close>
  returns, it does not stop the run, and the application shell goes on to render
  the tabs and the player for the recording.
\<close>

theorem failed_health_check_does_not_stop_counterexample:
  "get_health (store (world_of down_store)) =
     Inl (AttributeError (CHR 0x27 # ''QdrantClient'' @ [CHR 0x27] @
       '' object has no attribute '' @ [CHR 0x27] @ ''get_health'' @ [CHR 0x27])) \<and>
   fst (assure_db_collection_exists (world_of down_store)) = Returned () \<and>
   app_shell demo_md5 demo_transcribe demo_embedding
       \<lparr>recorded = \<lparr>seg_len = 1200, seg_mp3 = [1, 2, 3]\<rparr>, click_transcribe = False,
        text_area_value = (\<lambda>d. d), click_save = False\<rparr>
       demo_session (world_of down_store) =
     (Returned (),
      demo_session\<lparr>note_audio_bytes := Some [1, 2, 3], note_audio_bytes_md5 := Some ''aaa''\<rparr>,
      \<lparr>store = down_store,
       page = [Title,
               Err_connect (AttributeError (CHR 0x27 # ''QdrantClient'' @ [CHR 0x27] @
                 '' object has no attribute '' @ [CHR 0x27] @ ''get_health'' @ [CHR 0x27])),
               Tabs, Audio_player [1, 2, 3]],
       requests = []\<rparr>)"
  by (simp add: app_shell_def assure_db_collection_exists_def test_qdrant_connection_def
      get_health_def world_of_def down_store_def add_tab_def send_def show_ui_def
      audio_handler_def audio_handler_steps_def transcribe_step_def edit_step_def
      save_step_def button_def session_audio_def demo_session_def demo_md5_def Let_def)

text \<open>
  C4, amended. If the health check fails, \<open>assure_db_collection_exists\<close> reports
  the error to the user and returns without sending the collection-existence
  request or the collection-creation request: it sends no request and leaves the
  store as it was. It does not halt the application: the application shell goes on
  to render the tabs and to run the add-note tab.
\<close>

theorem failed_health_check_returns_to_shell:
  assumes "get_health (store w) = Inl e"
  shows "assure_db_collection_exists w = (Returned (), show_ui (Err_connect e) w) \<and>
         page (snd (assure_db_collection_exists w)) = page w @ [Err_connect e] \<and>
         requests (snd (assure_db_collection_exists w)) = requests w \<and>
         store (snd (assure_db_collection_exists w)) = store w \<and>
         app_shell md5_hex transcribe embedding inp sess w =
           add_tab md5_hex transcribe embedding inp sess
             (show_ui Tabs (show_ui (Err_connect e) (show_ui Title w)))"
proof -
  from assms have a: "assure_db_collection_exists w = (Returned (), show_ui (Err_connect e) w)"
    by (simp add: assure_db_collection_exists_def test_qdrant_connection_def)
  from assms have "get_health (store (show_ui Title w)) = Inl e"
    by simp
  then have "assure_db_collection_exists (show_ui Title w) =
      (Returned (), show_ui (Err_connect e) (show_ui Title w))"
    by (simp add: assure_db_collection_exists_def test_qdrant_connection_def)
  then have "app_shell md5_hex transcribe embedding inp sess w =
           add_tab md5_hex transcribe embedding inp sess
             (show_ui Tabs (show_ui (Err_connect e) (show_ui Title w)))"
    by (simp add: app_shell_def)
  with a show ?thesis by simp
qed

theorem failed_health_check_returns_witness:
  "get_health (store (world_of down_store)) =
     Inl (AttributeError (CHR 0x27 # ''QdrantClient'' @ [CHR 0x27] @
       '' object has no attribute '' @ [CHR 0x27] @ ''get_health'' @ [CHR 0x27])) \<and>
   assure_db_collection_exists (world_of down_store) =
     (Returned (),
      \<lparr>store = down_store,
       page = [Err_connect (AttributeError (CHR 0x27 # ''QdrantClient'' @ [CHR 0x27] @
                 '' object has no attribute '' @ [CHR 0x27] @ ''get_health'' @ [CHR 0x27]))],
       requests = []\<rparr>)"
proof -
  have h: "get_health (store (world_of down_store)) =
     Inl (AttributeError (CHR 0x27 # ''QdrantClient'' @ [CHR 0x27] @
       '' object has no attribute '' @ [CHR 0x27] @ ''get_health'' @ [CHR 0x27]))"
    by (simp add: get_health_def)
  from failed_health_check_returns_to_shell [OF h] h show ?thesis
    by (simp add: world_of_def show_ui_def)
qed

text \<open>
  The health check fails on every store, so the function never gets to the
  existence request: it shows the error and returns.
\<close>

lemma assure_reports_and_returns:
  "assure_db_collection_exists w =
     (Returned (),
      show_ui (Err_connect (AttributeError (CHR 0x27 # ''QdrantClient'' @ [CHR 0x27] @
        '' object has no attribute '' @ [CHR 0x27] @ ''get_health'' @ [CHR 0x27]))) w)"
  by (simp add: assure_db_collection_exists_def test_qdrant_connection_def get_health_def)

lemma assure_keeps_store:
  "store (snd (assure_db_collection_exists w)) = store w"
  by (simp add: assure_reports_and_returns)

text \<open>
  C8. The claim: on every reachable store, calling \<open>assure_db_collection_exists\<close>
  twice never creates two collections and never errors on the second call. The
  script does not get that far. On a store that answers and has no collection yet,
  the first call reports a connection error and creates nothing, and the second
  call reports the same error again; the collection is never looked for and never
  created.
\<close>

theorem assure_twice_reports_connection_error:
  "assure_db_collection_exists (world_of fresh_store) =
     (Returned (),
      \<lparr>store = fresh_store,
       page = [Err_connect (AttributeError (CHR 0x27 # ''QdrantClient'' @ [CHR 0x27] @
                 '' object has no attribute '' @ [CHR 0x27] @ ''get_health'' @ [CHR 0x27]))],
       requests = []\<rparr>) \<and>
   assure_db_collection_exists (snd (assure_db_collection_exists (world_of fresh_store))) =
     (Returned (),
      \<lparr>store = fresh_store,
       page = [Err_connect (AttributeError (CHR 0x27 # ''QdrantClient'' @ [CHR 0x27] @
                 '' object has no attribute '' @ [CHR 0x27] @ ''get_health'' @ [CHR 0x27])),
               Err_connect (AttributeError (CHR 0x27 # ''QdrantClient'' @ [CHR 0x27] @
                 '' object has no attribute '' @ [CHR 0x27] @ ''get_health'' @ [CHR 0x27]))],
       requests = []\<rparr>)"
  by (simp add: assure_reports_and_returns world_of_def show_ui_def)

subsection \<open>Adding a note\<close>

lemma add_note_to_db_result:
  assumes "api_ok (store w)"
    and "map_of (collections (store w)) QDRANT_COLLECTION_NAME = Some c"
    and "openai_api_key sess = Some k"
    and "embedding k ntext = Inr v"
  shows "add_note_to_db embedding sess ntext w =
           (Returned (),
            w\<lparr>requests := requests w @
                 [Count QDRANT_COLLECTION_NAME, Embed ntext,
                  Upsert QDRANT_COLLECTION_NAME (length (points c) + 1) v ntext],
              store := (store w)\<lparr>collections :=
                 AList.update QDRANT_COLLECTION_NAME
                   (c\<lparr>points := AList.update (length (points c) + 1)
                        \<lparr>pt_vector = v, pt_text = ntext\<rparr> (points c)\<rparr>)
                   (collections (store w))\<rparr>\<rparr>)"
  using assms
  by (simp add: add_note_to_db_def read_points_count_def count_points_def
      upsert_note_point_def get_embeddings_ok upsert_def send_def)

text \<open>
  C2. \<open>add_note_to_db\<close> assigns the new point the identifier count plus one, where
  count is the exact point count the store gives at insert time: when the store
  answers, the collection exists and the embedding call succeeds, the count read is
  the number of points, the point upserted has the identifier one above it, and the
  function returns. The scenario of the claim (first identifier 1 on an empty
  collection, then identifier 2) is the evaluation that follows the theorem.
\<close>

theorem add_note_to_db_assigns_count_plus_one:
  assumes "api_ok (store w)"
    and "map_of (collections (store w)) QDRANT_COLLECTION_NAME = Some c"
    and "openai_api_key sess = Some k"
    and "embedding k ntext = Inr v"
  shows "fst (read_points_count w) = Inr (length (points c)) \<and>
         add_note_to_db embedding sess ntext w =
           (Returned (),
            w\<lparr>requests := requests w @
                 [Count QDRANT_COLLECTION_NAME, Embed ntext,
                  Upsert QDRANT_COLLECTION_NAME (length (points c) + 1) v ntext],
              store := (store w)\<lparr>collections :=
                 AList.update QDRANT_COLLECTION_NAME
                   (c\<lparr>points := AList.update (length (points c) + 1)
                        \<lparr>pt_vector = v, pt_text = ntext\<rparr> (points c)\<rparr>)
                   (collections (store w))\<rparr>\<rparr>)"
  using assms add_note_to_db_result [of w c sess k embedding ntext v]
  by (simp add: read_points_count_def count_points_def)

theorem add_note_to_db_first_two_ids:
  "add_note_to_db demo_embedding demo_session ''buy milk'' (world_of (store_with [])) =
     (Returned (),
      \<lparr>store = store_with [(1, \<lparr>pt_vector = [8], pt_text = ''buy milk''\<rparr>)],
       page = [],
       requests = [Count ''notes'', Embed ''buy milk'', Upsert ''notes'' 1 [8] ''buy milk'']\<rparr>)
   \<and> store (snd (add_note_to_db demo_embedding demo_session ''call mom''
        (world_of (store_with [(1, \<lparr>pt_vector = [8], pt_text = ''buy milk''\<rparr>)])))) =
      store_with [(1, \<lparr>pt_vector = [8], pt_text = ''buy milk''\<rparr>),
                  (2, \<lparr>pt_vector = [8], pt_text = ''call mom''\<rparr>)]"
  using add_note_to_db_assigns_count_plus_one
          [of "world_of (store_with [])" "notes_collection []" demo_session "''sk-demo''"
              demo_embedding "''buy milk''" "[8]"]
        add_note_to_db_assigns_count_plus_one
          [of "world_of (store_with [(1, \<lparr>pt_vector = [8], pt_text = ''buy milk''\<rparr>)])"
              "notes_collection [(1, \<lparr>pt_vector = [8], pt_text = ''buy milk''\<rparr>)]"
              demo_session "''sk-demo''"
              demo_embedding "''call mom''" "[8]"]
  by (simp add: world_of_def store_with_def notes_collection_def demo_session_def
      demo_embedding_def QDRANT_COLLECTION_NAME_def)

subsection \<open>Listing notes\<close>

text \<open>
  C1. The claim: listing with no query, offset 0 and limit 10 on a store with three
  notes returns three entries, each with score \<open>None\<close>. The script does not return:
  the listing path hands the objects of \<open>scroll\<close> to the same comprehension as the
  search path, which reads the attribute \<open>score\<close> of each, and the objects of
  \<open>scroll\<close> have none.
\<close>

theorem listing_three_notes_raises:
  "list_notes_from_db demo_embedding demo_rank demo_session None 0 10
     (world_of (store_with three_notes)) =
   (Raised (AttributeError (CHR 0x27 # ''Record'' @ [CHR 0x27] @
       '' object has no attribute '' @ [CHR 0x27] @ ''score'' @ [CHR 0x27])),
    \<lparr>store = store_with three_notes, page = [], requests = [Scroll ''notes'' 10 0]\<rparr>)"
  by (simp add: list_notes_from_db_def fetch_notes_def scroll_def send_def world_of_def
      store_with_def three_notes_def notes_collection_def QDRANT_COLLECTION_NAME_def)

text \<open>The same on every collection that is not empty, for every positive limit.\<close>

lemma listing_nonempty_raises:
  assumes "api_ok (store w)"
    and "map_of (collections (store w)) QDRANT_COLLECTION_NAME = Some c"
    and "points c \<noteq> []" and "0 < limit"
  shows "\<exists>msg. fst (list_notes_from_db embedding rank sess None 0 limit w) =
           Raised (AttributeError msg)"
proof -
  have "filter (\<lambda>(i, p). 0 \<le> i) (sort_key fst (points c)) = sort_key fst (points c)"
    by (simp add: case_prod_unfold)
  moreover from assms(3) have "sort_key fst (points c) \<noteq> []"
    by (metis length_sort length_0_conv)
  ultimately obtain x xs where "take limit (filter (\<lambda>(i, p). 0 \<le> i) (sort_key fst (points c))) = x # xs"
    using assms(4) by (cases "sort_key fst (points c)"; cases limit) auto
  with assms(1,2) show ?thesis
    by (cases x) (simp add: list_notes_from_db_def fetch_notes_def scroll_def)
qed

subsection \<open>Stored notes stay as they were inserted\<close>

lemma update_fresh_key_appends:
  "k \<notin> fst ` set al \<Longrightarrow> AList.update k v al = al @ [(k, v)]"
  by (induction al) auto

lemma ids_contiguous_fresh:
  "ids_contiguous ps \<Longrightarrow> length ps + 1 \<notin> fst ` set ps"
  by (auto simp: ids_contiguous_def list_all_iff)

lemma ids_contiguous_snoc:
  "ids_contiguous ps \<Longrightarrow> ids_contiguous (ps @ [(length ps + 1, p)])"
  by (auto simp: ids_contiguous_def list_all_iff)

lemma list_notes_keeps_store:
  "store (snd (list_notes_from_db embedding rank sess query offset limit w)) = store w"
  by (auto simp: list_notes_from_db_def fetch_notes_def get_embeddings_def Let_def
      split: prod.splits sum.splits option.splits)

text \<open>
  C9 as stated fails on its second half. Two sessions share the store. The first
  reads the count of the empty collection; the second adds the note "call mom",
  which gets the identifier 1; the first then upserts "buy milk" under the count
  it read plus one, which is 1 again, and the existing note is replaced.
\<close>

theorem concurrent_upsert_replaces_note_counterexample:
  "fst (read_points_count (world_of (store_with []))) = Inr 0 \<and>
   store (snd (add_note_to_db demo_embedding demo_session ''call mom''
      (snd (read_points_count (world_of (store_with [])))))) =
     store_with [(1, \<lparr>pt_vector = [8], pt_text = ''call mom''\<rparr>)] \<and>
   store (snd (upsert_note_point demo_embedding demo_session ''buy milk'' 0
      (snd (add_note_to_db demo_embedding demo_session ''call mom''
        (snd (read_points_count (world_of (store_with [])))))))) =
     store_with [(1, \<lparr>pt_vector = [8], pt_text = ''buy milk''\<rparr>)]"
  by (simp add: add_note_to_db_def read_points_count_def count_points_def
      upsert_note_point_def get_embeddings_def get_openai_client_def upsert_def send_def
      world_of_def store_with_def notes_collection_def demo_session_def
      demo_embedding_def QDRANT_COLLECTION_NAME_def)

lemma transcribe_audio_keeps_store:
  "store (snd (transcribe_audio transcribe sess audio_bytes w)) = store w"
  by (auto simp: transcribe_audio_def split: sum.splits prod.splits)

text \<open>
  C9, amended. For every note stored by \<open>add_note_to_db\<close> the stored vector is
  exactly the embedding of the note's own text, computed in that call.
  \<open>list_notes_from_db\<close> (listing and search), \<open>assure_db_collection_exists\<close> and
  \<open>transcribe_audio\<close> leave the store, and so every existing note, as it was.
  \<open>add_note_to_db\<close> leaves every existing note as it was when no other writer
  comes between its count and its upsert and the identifiers of the collection are
  1 up to the count: it appends the new point, and the identifiers are again
  1 up to the count. The identifiers of the empty collection are of this kind, so
  those of every collection filled by such calls alone are.
\<close>

theorem stored_notes_are_kept:
  "(api_ok (store w) \<and>
    map_of (collections (store w)) QDRANT_COLLECTION_NAME = Some c \<and>
    openai_api_key sess = Some k \<and> embedding k ntext = Inr v \<longrightarrow>
      fst (add_note_to_db embedding sess ntext w) = Returned () \<and>
      (\<exists>c'. map_of (collections (store (snd (add_note_to_db embedding sess ntext w))))
               QDRANT_COLLECTION_NAME = Some c' \<and>
            map_of (points c') (length (points c) + 1) =
              Some \<lparr>pt_vector = v, pt_text = ntext\<rparr>) \<and>
      (ids_contiguous (points c) \<longrightarrow>
         map_of (collections (store (snd (add_note_to_db embedding sess ntext w))))
             QDRANT_COLLECTION_NAME =
           Some (c\<lparr>points := points c @
                   [(length (points c) + 1, \<lparr>pt_vector = v, pt_text = ntext\<rparr>)]\<rparr>) \<and>
         ids_contiguous
           (points c @ [(length (points c) + 1, \<lparr>pt_vector = v, pt_text = ntext\<rparr>)]))) \<and>
   (\<forall>rank query offset limit.
      store (snd (list_notes_from_db embedding rank sess query offset limit w)) = store w) \<and>
   store (snd (assure_db_collection_exists w)) = store w \<and>
   (\<forall>transcribe audio_bytes.
      store (snd (transcribe_audio transcribe sess audio_bytes w)) = store w) \<and>
   ids_contiguous ([] :: (nat \<times> 'a point) list)"
proof -
  have empty: "ids_contiguous ([] :: (nat \<times> 'a point) list)"
    by (simp add: ids_contiguous_def)
  have add: "fst (add_note_to_db embedding sess ntext w) = Returned () \<and>
      (\<exists>c'. map_of (collections (store (snd (add_note_to_db embedding sess ntext w))))
               QDRANT_COLLECTION_NAME = Some c' \<and>
            map_of (points c') (length (points c) + 1) =
              Some \<lparr>pt_vector = v, pt_text = ntext\<rparr>) \<and>
      (ids_contiguous (points c) \<longrightarrow>
         map_of (collections (store (snd (add_note_to_db embedding sess ntext w))))
             QDRANT_COLLECTION_NAME =
           Some (c\<lparr>points := points c @
                   [(length (points c) + 1, \<lparr>pt_vector = v, pt_text = ntext\<rparr>)]\<rparr>) \<and>
         ids_contiguous
           (points c @ [(length (points c) + 1, \<lparr>pt_vector = v, pt_text = ntext\<rparr>)]))"
    if pre: "api_ok (store w)" "map_of (collections (store w)) QDRANT_COLLECTION_NAME = Some c"
      "openai_api_key sess = Some k" "embedding k ntext = Inr v"
  proof -
    let ?p = "\<lparr>pt_vector = v, pt_text = ntext\<rparr>"
    let ?c' = "c\<lparr>points := AList.update (length (points c) + 1) ?p (points c)\<rparr>"
    from add_note_to_db_result [of w c sess k embedding ntext v] pre
    have r: "fst (add_note_to_db embedding sess ntext w) = Returned ()"
      and m: "map_of (collections (store (snd (add_note_to_db embedding sess ntext w))))
             QDRANT_COLLECTION_NAME = Some ?c'"
      by (simp_all add: update_conv')
    have "map_of (points ?c') (length (points c) + 1) = Some ?p"
      by (simp add: update_conv')
    with m have ex: "\<exists>c'. map_of (collections (store (snd (add_note_to_db embedding sess ntext w))))
               QDRANT_COLLECTION_NAME = Some c' \<and>
            map_of (points c') (length (points c) + 1) = Some ?p"
      by (intro exI [of _ ?c'] conjI)
    have "map_of (collections (store (snd (add_note_to_db embedding sess ntext w))))
             QDRANT_COLLECTION_NAME =
           Some (c\<lparr>points := points c @ [(length (points c) + 1, ?p)]\<rparr>) \<and>
         ids_contiguous (points c @ [(length (points c) + 1, ?p)])"
      if ic: "ids_contiguous (points c)"
    proof -
      from ids_contiguous_fresh [OF ic]
      have "AList.update (length (points c) + 1) ?p (points c) =
          points c @ [(length (points c) + 1, ?p)]"
        by (rule update_fresh_key_appends)
      with m ids_contiguous_snoc [OF ic] show ?thesis by simp
    qed
    with r ex show ?thesis by blast
  qed
  from add list_notes_keeps_store assure_keeps_store transcribe_audio_keeps_store empty
  show ?thesis by (intro conjI impI allI) auto
qed

theorem stored_notes_are_kept_witness:
  "ids_contiguous [(1::nat, \<lparr>pt_vector = [8::nat], pt_text = ''buy milk''\<rparr>)] \<and>
   map_of (collections (store (snd (add_note_to_db demo_embedding demo_session ''call mom''
        (world_of (store_with [(1, \<lparr>pt_vector = [8], pt_text = ''buy milk''\<rparr>)]))))))
      ''notes'' =
     Some (notes_collection [(1, \<lparr>pt_vector = [8], pt_text = ''buy milk''\<rparr>),
                  (2, \<lparr>pt_vector = [8], pt_text = ''call mom''\<rparr>)])"
proof -
  let ?w = "world_of (store_with [(1, \<lparr>pt_vector = [8], pt_text = ''buy milk''\<rparr>)])"
  let ?c = "notes_collection [(1, \<lparr>pt_vector = [8], pt_text = ''buy milk''\<rparr>)]"
  have c: "ids_contiguous [(1::nat, \<lparr>pt_vector = [8::nat], pt_text = ''buy milk''\<rparr>)]"
    by (simp add: ids_contiguous_def)
  then have c': "ids_contiguous (points ?c)"
    by (simp add: notes_collection_def)
  have pre: "api_ok (store ?w) \<and>
      map_of (collections (store ?w)) QDRANT_COLLECTION_NAME = Some ?c \<and>
      openai_api_key demo_session = Some ''sk-demo'' \<and>
      demo_embedding ''sk-demo'' ''call mom'' = Inr [8]"
    by (simp add: world_of_def store_with_def demo_session_def demo_embedding_def
        QDRANT_COLLECTION_NAME_def)
  from stored_notes_are_kept
          [where w = ?w and c = ?c and sess = demo_session and k = "''sk-demo''"
             and embedding = demo_embedding and ntext = "''call mom''" and v = "[8]"]
    pre c'
  have "map_of (collections (store (snd (add_note_to_db demo_embedding demo_session ''call mom'' ?w))))
             QDRANT_COLLECTION_NAME =
           Some (?c\<lparr>points := points ?c @
                   [(length (points ?c) + 1, \<lparr>pt_vector = [8], pt_text = ''call mom''\<rparr>)]\<rparr>)"
    by blast
  with c show ?thesis
    by (simp add: notes_collection_def QDRANT_COLLECTION_NAME_def)
qed

subsection \<open>The save action\<close>

lemma upsert_texts_append:
  "upsert_texts (a @ b) = upsert_texts a @ upsert_texts b"
  by (induction a rule: upsert_texts.induct) simp_all

lemma transcribe_audio_effect:
  assumes "transcribe_audio transcribe sess audio_bytes w = (out, w')"
  shows "store w' = store w \<and> (\<exists>new. requests w' = requests w @ new \<and> upsert_texts new = [])"
  using assms
  by (auto simp: transcribe_audio_def split: sum.splits prod.splits)

lemma transcribe_step_effect:
  assumes "transcribe_step transcribe clicked sess w = (out, sess', w')"
  shows "store w' = store w \<and> (\<exists>new. requests w' = requests w @ new \<and> upsert_texts new = [])"
proof (cases "button clicked False")
  case False
  with assms show ?thesis by (simp add: transcribe_step_def)
next
  case True
  obtain o1 w1 where t: "transcribe_audio transcribe sess (session_audio sess) w = (o1, w1)"
    by (cases "transcribe_audio transcribe sess (session_audio sess) w")
  from True assms t have "w' = w1"
    by (cases o1) (simp_all add: transcribe_step_def)
  with transcribe_audio_effect [OF t] show ?thesis by simp
qed

lemma add_note_to_db_effect:
  assumes "add_note_to_db embedding sess ntext w = (out, w')"
  shows "\<exists>new. requests w' = requests w @ new \<and> set (upsert_texts new) \<subseteq> {ntext}"
  using assms
  by (auto simp: add_note_to_db_def read_points_count_def upsert_note_point_def
      get_embeddings_def Let_def split: sum.splits prod.splits)

lemma save_step_effect:
  assumes "save_step embedding inp sess w = (out, w')"
  shows "(\<exists>new. requests w' = requests w @ new \<and>
            (\<forall>t\<in>set (upsert_texts new). t \<noteq> [] \<and> t = note_text sess)) \<and>
         (note_text sess = [] \<longrightarrow> w' = w)"
proof (cases "note_text sess \<noteq> [] \<and> button (click_save inp) (note_text sess = [])")
  case False
  with assms have "w' = w" by (auto simp: save_step_def)
  then show ?thesis by simp
next
  case True
  with assms have "add_note_to_db embedding sess (note_text sess) w = (out, w')"
    by (simp add: save_step_def save_note_def button_def)
  from add_note_to_db_effect [OF this] obtain new where
    r: "requests w' = requests w @ new" and u: "set (upsert_texts new) \<subseteq> {note_text sess}"
    by blast
  from True have ne: "note_text sess \<noteq> []" by simp
  have "\<forall>t\<in>set (upsert_texts new). t \<noteq> [] \<and> t = note_text sess"
  proof
    fix t assume "t \<in> set (upsert_texts new)"
    with u have "t = note_text sess" by auto
    with ne show "t \<noteq> [] \<and> t = note_text sess" by simp
  qed
  with r have "\<exists>new. requests w' = requests w @ new \<and>
      (\<forall>t\<in>set (upsert_texts new). t \<noteq> [] \<and> t = note_text sess)"
    by (intro exI [of _ new] conjI)
  with ne show ?thesis by simp
qed

lemma add_tab_effect:
  assumes "add_tab md5_hex transcribe embedding inp sess w = (out, sess', w')"
  shows "(\<exists>new. requests w' = requests w @ new \<and>
            (\<forall>t\<in>set (upsert_texts new). t \<noteq> [] \<and> t = note_text sess')) \<and>
         (note_text sess' = [] \<longrightarrow> store w' = store w)"
proof (cases "seg_len (recorded inp) = 0")
  case True
  with assms show ?thesis by (simp add: add_tab_def)
next
  case False
  define sess1 where "sess1 = audio_handler md5_hex sess (seg_mp3 (recorded inp))"
  define w1 where "w1 = show_ui (Audio_player (session_audio sess1)) w"
  obtain o1 sess2 w2 where
    ts: "transcribe_step transcribe (click_transcribe inp) sess1 w1 = (o1, sess2, w2)"
    by (cases "transcribe_step transcribe (click_transcribe inp) sess1 w1")
  from transcribe_step_effect [OF ts] obtain new1 where
    n1: "store w2 = store w" "requests w2 = requests w @ new1" "upsert_texts new1 = []"
    by (auto simp: w1_def)
  show ?thesis
  proof (cases o1)
    case (Returned u)
    obtain o3 w3 where ss: "save_step embedding inp (edit_step inp sess2) w2 = (o3, w3)"
      by (cases "save_step embedding inp (edit_step inp sess2) w2")
    from False assms ts Returned ss have eq: "sess' = edit_step inp sess2" "w' = w3"
      by (simp_all add: add_tab_def sess1_def w1_def)
    from save_step_effect [OF ss] obtain new2 where
      n2: "requests w3 = requests w2 @ new2"
        "\<forall>t\<in>set (upsert_texts new2). t \<noteq> [] \<and> t = note_text (edit_step inp sess2)"
        "note_text (edit_step inp sess2) = [] \<longrightarrow> w3 = w2"
      by blast
    from n1 n2 eq have "requests w' = requests w @ (new1 @ new2)"
      and "\<forall>t\<in>set (upsert_texts (new1 @ new2)). t \<noteq> [] \<and> t = note_text sess'"
      by (simp_all add: upsert_texts_append)
    moreover from n1 n2 eq have "note_text sess' = [] \<longrightarrow> store w' = store w"
      by auto
    ultimately show ?thesis by blast
  next
    case Stopped
    with False assms ts have "w' = w2"
      by (simp add: add_tab_def sess1_def w1_def)
    with n1 show ?thesis by auto
  next
    case (Raised e)
    with False assms ts have "w' = w2"
      by (simp add: add_tab_def sess1_def w1_def)
    with n1 show ?thesis by auto
  qed
qed

text \<open>
  C10. Through the add-note tab a note with empty text is never saved. Every upsert
  request that a run of the tab sends carries a non-empty text, the note text of
  the session state; and a run that ends with an empty note text has sent no
  upsert request and has left the store as it was.
\<close>

theorem add_tab_never_saves_empty_text:
  assumes "add_tab md5_hex transcribe embedding inp sess w = (out, sess', w')"
  shows "(\<forall>t\<in>set (upsert_texts (drop (length (requests w)) (requests w'))).
            t \<noteq> [] \<and> t = note_text sess') \<and>
         (note_text sess' = [] \<longrightarrow> store w' = store w \<and> requests w' = requests w @
            drop (length (requests w)) (requests w') \<and>
            upsert_texts (drop (length (requests w)) (requests w')) = [])"
proof -
  from add_tab_effect [OF assms] obtain new where
    n: "requests w' = requests w @ new"
      "\<forall>t\<in>set (upsert_texts new). t \<noteq> [] \<and> t = note_text sess'"
      "note_text sess' = [] \<longrightarrow> store w' = store w"
    by blast
  then have d: "drop (length (requests w)) (requests w') = new" by simp
  have h: "note_text sess' = [] \<longrightarrow> upsert_texts new = []"
  proof
    assume e: "note_text sess' = []"
    show "upsert_texts new = []"
    proof (cases "upsert_texts new")
      case Nil then show ?thesis .
    next
      case (Cons t ts)
      then have "t \<in> set (upsert_texts new)" by simp
      with n(2) e show ?thesis by auto
    qed
  qed
  show ?thesis unfolding d using n h by blast
qed

theorem add_tab_never_saves_empty_witness:
  "add_tab demo_md5 demo_transcribe demo_embedding
     \<lparr>recorded = \<lparr>seg_len = 1200, seg_mp3 = [1, 2, 3]\<rparr>, click_transcribe = False,
      text_area_value = (\<lambda>d. ''buy oat milk''), click_save = True\<rparr>
     (demo_session\<lparr>note_audio_bytes_md5 := Some ''aaa'', note_audio_text := ''buy milk'',
        note_text := ''buy milk''\<rparr>)
     (world_of (store_with [])) =
   (Returned (),
    demo_session\<lparr>note_audio_bytes_md5 := Some ''aaa'', note_audio_text := ''buy milk'',
        note_text := ''buy oat milk'', note_audio_bytes := Some [1, 2, 3]\<rparr>,
    \<lparr>store = store_with [(1, \<lparr>pt_vector = [12], pt_text = ''buy oat milk''\<rparr>)],
     page = [Audio_player [1, 2, 3]],
     requests = [Count ''notes'', Embed ''buy oat milk'',
                 Upsert ''notes'' 1 [12] ''buy oat milk'']\<rparr>) \<and>
   upsert_texts [Count ''notes'', Embed ''buy oat milk'',
                 Upsert ''notes'' 1 [12::nat] ''buy oat milk''] = [''buy oat milk'']"
proof -
  have run: "add_tab demo_md5 demo_transcribe demo_embedding
     \<lparr>recorded = \<lparr>seg_len = 1200, seg_mp3 = [1, 2, 3]\<rparr>, click_transcribe = False,
      text_area_value = (\<lambda>d. ''buy oat milk''), click_save = True\<rparr>
     (demo_session\<lparr>note_audio_bytes_md5 := Some ''aaa'', note_audio_text := ''buy milk'',
        note_text := ''buy milk''\<rparr>)
     (world_of (store_with [])) =
   (Returned (),
    demo_session\<lparr>note_audio_bytes_md5 := Some ''aaa'', note_audio_text := ''buy milk'',
        note_text := ''buy oat milk'', note_audio_bytes := Some [1, 2, 3]\<rparr>,
    \<lparr>store = store_with [(1, \<lparr>pt_vector = [12], pt_text = ''buy oat milk''\<rparr>)],
     page = [Audio_player [1, 2, 3]],
     requests = [Count ''notes'', Embed ''buy oat milk'',
                 Upsert ''notes'' 1 [12] ''buy oat milk'']\<rparr>)"
    by (simp add: add_tab_def audio_handler_def audio_handler_steps_def transcribe_step_def
        edit_step_def save_step_def save_note_def button_def session_audio_def
        add_note_to_db_def read_points_count_def count_points_def
        upsert_note_point_def get_embeddings_def get_openai_client_def upsert_def send_def
        show_ui_def world_of_def store_with_def notes_collection_def demo_session_def
        demo_embedding_def demo_md5_def QDRANT_COLLECTION_NAME_def)
  have ut: "upsert_texts [Count ''notes'', Embed ''buy oat milk'',
                 Upsert ''notes'' 1 [12::nat] ''buy oat milk''] = [''buy oat milk'']"
    by simp
  show ?thesis
    using add_tab_never_saves_empty_text [OF run]
    by (intro conjI run ut)
qed

end
